theory Spec2Isabelle
  imports Main "HOL-Library.Word" "HOL-Library.Finite_Map"
begin

unbundle bit_operations_syntax

text \<open>
  The repository holds the module \<open>xorlist\<close> twice: \<open>xorlist.cpp\<close>, which is modelled
  here, and \<open>xorlist.ixx\<close>, an earlier state of the same text. Both have the same
  iterator classes, a \<open>begin()\<close> without \<open>return\<close> statement, \<open>empty()\<close> and \<open>size()\<close>
  that read the stored count, and the same bodies for insert, emplace, erase, push,
  pop, resize, swap, splice, sort and unique. In
  \<open>xorlist.ixx\<close> the list has no node type (\<open>_end\<close> is a plain pointer), and \<open>end()\<close>,
  \<open>clear()\<close>, \<open>reverse()\<close> and \<open>merge(other)\<close> are still the statement
  \<open>throw std::logic_error::logic_error("Not yet implemented");\<close>.
\<close>

section \<open>Addresses and iterators (xorlist.cpp, lines 139-203)\<close>

text \<open>
  A \<open>pointer\<close> is a machine address. Pointer arithmetic of the source steps by whole
  objects of the pointee type, so \<open>ptr++\<close> is \<open>ptr + 1\<close> and \<open>ptr--\<close> is \<open>ptr - 1\<close> on an
  address counted in objects; both wrap around as machine words do. \<open>nullptr\<close> is the
  address 0.
\<close>

type_synonym pointer = "64 word"

definition nullptr :: pointer where
  "nullptr = 0"

text \<open>
  \<open>class iterator { pointer ptr; ... }\<close>: the only data member is \<open>ptr\<close>.
\<close>

record iterator =
  ptr :: pointer

text \<open>
  An operator of the iterator changes \<open>*this\<close> and returns a value: the model returns the
  pair (new \<open>*this\<close>, returned iterator).

  \<open>auto operator++() { ptr++; return *this; }\<close>
\<close>

definition iterator_pre_inc :: "iterator \<Rightarrow> iterator \<times> iterator" where
  "iterator_pre_inc this = (let this1 = this\<lparr>ptr := ptr this + 1\<rparr> in (this1, this1))"

text \<open>\<open>auto operator++(int) { auto tmp = *this; ++(*this); return tmp; }\<close>\<close>

definition iterator_post_inc :: "iterator \<Rightarrow> iterator \<times> iterator" where
  "iterator_post_inc this = (let tmp = this; this1 = fst (iterator_pre_inc this) in (this1, tmp))"

text \<open>\<open>auto operator--() { ptr--; return *this; }\<close>\<close>

definition iterator_pre_dec :: "iterator \<Rightarrow> iterator \<times> iterator" where
  "iterator_pre_dec this = (let this1 = this\<lparr>ptr := ptr this - 1\<rparr> in (this1, this1))"

text \<open>\<open>auto operator--(int) { auto tmp = *this; --(*this); return tmp; }\<close>\<close>

definition iterator_post_dec :: "iterator \<Rightarrow> iterator \<times> iterator" where
  "iterator_post_dec this = (let tmp = this; this1 = fst (iterator_pre_dec this) in (this1, tmp))"

text \<open>\<open>bool operator==(const iterator &rhs) const { return ptr == rhs.ptr; }\<close>\<close>

definition iterator_eq :: "iterator \<Rightarrow> iterator \<Rightarrow> bool" where
  "iterator_eq this rhs = (ptr this = ptr rhs)"

text \<open>\<open>std::next(it)\<close> on a forward iterator: a copy of \<open>it\<close>, pre-incremented once.\<close>

definition std_next :: "iterator \<Rightarrow> iterator" where
  "std_next it = snd (iterator_pre_inc it)"

text \<open>
  \<open>class const_iterator { pointer ptr; ... }\<close>. Its operators are written differently
  from those of \<open>iterator\<close>:

  \<open>auto operator++() { auto tmp = *this; ++(*this); return tmp; }\<close>

  The body applies the prefix operator to \<open>*this\<close>, which is the operator being defined.
  The recursion has no base case, so the model is a partial function in the option
  monad: \<open>None\<close> is the call that never returns.
\<close>

record const_iterator =
  cptr :: pointer

partial_function (option) const_iterator_pre_inc ::
    "const_iterator \<Rightarrow> (const_iterator \<times> const_iterator) option" where
  "const_iterator_pre_inc this =
     (let tmp = this in
      Option.bind (const_iterator_pre_inc this) (\<lambda>r. Some (fst r, tmp)))"

text \<open>\<open>auto operator++(int) { ptr++; return *this; }\<close>\<close>

definition const_iterator_post_inc :: "const_iterator \<Rightarrow> const_iterator \<times> const_iterator" where
  "const_iterator_post_inc this = (let this1 = this\<lparr>cptr := cptr this + 1\<rparr> in (this1, this1))"

text \<open>\<open>auto operator--() { ptr--; return *this; }\<close>\<close>

definition const_iterator_pre_dec :: "const_iterator \<Rightarrow> const_iterator \<times> const_iterator" where
  "const_iterator_pre_dec this = (let this1 = this\<lparr>cptr := cptr this - 1\<rparr> in (this1, this1))"

text \<open>\<open>auto operator--(int) { auto tmp = *this; --(*this); return tmp; }\<close>\<close>

definition const_iterator_post_dec :: "const_iterator \<Rightarrow> const_iterator \<times> const_iterator" where
  "const_iterator_post_dec this =
     (let tmp = this; this1 = fst (const_iterator_pre_dec this) in (this1, tmp))"

text \<open>\<open>bool operator==(const const_iterator &rhs) { return ptr == rhs.ptr; }\<close>\<close>

definition const_iterator_eq :: "const_iterator \<Rightarrow> const_iterator \<Rightarrow> bool" where
  "const_iterator_eq this rhs = (cptr this = cptr rhs)"

section \<open>The traversal rule of the specification\<close>

text \<open>
  The specification describes a cursor of two addresses, (current, from), and one
  decoding rule, \<open>to = current.link XOR from\<close>. These two definitions follow the
  specification's words, for comparison with the iterator of the source; \<open>link\<close> gives
  the combined link field stored at an address.
\<close>

definition spec_codec :: "(pointer \<Rightarrow> pointer) \<Rightarrow> pointer \<Rightarrow> pointer \<Rightarrow> pointer" where
  "spec_codec link current from = link current XOR from"

definition spec_increment :: "(pointer \<Rightarrow> pointer) \<Rightarrow> pointer \<times> pointer \<Rightarrow> pointer \<times> pointer" where
  "spec_increment link cursor =
     (let current = fst cursor; from = snd cursor;
          next_addr = spec_codec link current from
      in (next_addr, current))"

section \<open>Nodes, exceptions and the list object (xorlist.cpp, lines 205-233)\<close>

text \<open>
  \<open>template <class T> struct _node { __node_pointer _link; T _value; ... }\<close>: one link
  field and one value. \<open>m_link\<close> and \<open>m_value\<close> stand for the members \<open>_link\<close> and
  \<open>_value\<close>.
\<close>

record 'a node =
  m_link :: pointer
  m_value :: 'a

text \<open>
  \<open>_node() : _link(_self()) {}\<close>, where \<open>_self()\<close> is the address of the node itself:
  a new node's link field holds the node's own address. \<open>self\<close> is the address the node
  is constructed at and \<open>d\<close> the default-initialised value of type \<open>T\<close>.
\<close>

definition node_ctor :: "pointer \<Rightarrow> 'a \<Rightarrow> 'a node" where
  "node_ctor self d = \<lparr>m_link = self, m_value = d\<rparr>"

text \<open>
  Of the allocator the list uses one trait,
  \<open>std::allocator_traits<Allocator>::is_always_equal::value\<close>, in the exception
  specification of \<open>swap\<close>. It is \<open>true\<close> for the default \<open>std::allocator<T>\<close>.
\<close>

record allocator =
  is_always_equal :: bool

definition std_allocator :: allocator where
  "std_allocator = \<lparr>is_always_equal = True\<rparr>"

text \<open>
  The data members of \<open>xorlist\<close>: \<open>front0\<close>, \<open>front1\<close>, \<open>back0\<close>, \<open>back1\<close>, \<open>alloc\<close>,
  \<open>_size\<close> (here \<open>m_size\<close>) and the node \<open>_end\<close> (here \<open>m_end\<close>). \<open>end_self\<close> is the
  address of the member \<open>_end\<close>, what \<open>_end._self()\<close> returns. \<open>nodes\<close> is the storage
  of the element nodes obtained from the node allocator, by address.
\<close>

record 'a xorlist =
  front0 :: pointer
  front1 :: pointer
  back0 :: pointer
  back1 :: pointer
  alloc :: allocator
  m_size :: "64 word"
  m_end :: "'a node"
  end_self :: pointer
  nodes :: "(pointer, 'a node) fmap"

text \<open>
  How a call ends. It returns a value (\<open>Inr\<close>, with the state it leaves), or it fails:
  an exception leaves the function (\<open>Thrown\<close>, with the state at that moment),
  \<open>std::terminate\<close> ends the program, or the behaviour of the call is undefined.
\<close>

datatype exn = logic_error string

datatype 's failure = Thrown exn 's | Terminated | Undefined

type_synonym ('r, 's) result = "'s failure + 'r \<times> 's"

text \<open>
  An exception that leaves a function whose exception specification is
  \<open>noexcept(b)\<close> with \<open>b\<close> true ends the program through \<open>std::terminate\<close>.
\<close>

definition noexcept_if :: "bool \<Rightarrow> ('r, 's) result \<Rightarrow> ('r, 's) result" where
  "noexcept_if b r =
     (case r of
        Inl (Thrown e s) \<Rightarrow> if b then Inl Terminated else r
      | _ \<Rightarrow> r)"

text \<open>\<open>throw std::logic_error::logic_error("Not yet implemented");\<close>\<close>

definition not_yet_implemented :: "'s \<Rightarrow> ('r, 's) result" where
  "not_yet_implemented s = Inl (Thrown (logic_error ''Not yet implemented'') s)"

section \<open>Construction, capacity and iterators of the list\<close>

text \<open>
  \<open>xorlist() noexcept(...) {}\<close> and \<open>explicit xorlist(const allocator_type &alloc) :
  alloc(alloc) {}\<close>. Every member takes its default member initialiser:
  the four pointers are \<open>nullptr\<close>, \<open>_size{}\<close> is 0 and \<open>_end\<close> is built by the node
  constructor. No node is allocated. \<open>a\<close> is the allocator, \<open>self\<close> the address of the
  member \<open>_end\<close> of the new object, \<open>d\<close> the default-initialised value of \<open>_end\<close>.
\<close>

definition xorlist_default :: "allocator \<Rightarrow> pointer \<Rightarrow> 'a \<Rightarrow> 'a xorlist" where
  "xorlist_default a self d =
     \<lparr>front0 = nullptr, front1 = nullptr, back0 = nullptr, back1 = nullptr,
      alloc = a, m_size = 0, m_end = node_ctor self d, end_self = self,
      nodes = fmempty\<rparr>"

text \<open>\<open>[[nodiscard]] bool empty() const noexcept { return _size == 0; }\<close>\<close>

definition xorlist_empty :: "'a xorlist \<Rightarrow> bool" where
  "xorlist_empty s = (m_size s = 0)"

text \<open>\<open>size_type size() const noexcept { return _size; }\<close>\<close>

definition xorlist_size :: "'a xorlist \<Rightarrow> 64 word" where
  "xorlist_size s = m_size s"

text \<open>\<open>allocator_type get_allocator() const noexcept\<close>\<close>

definition get_allocator :: "'a xorlist \<Rightarrow> allocator" where
  "get_allocator s = alloc s"

text \<open>
  \<open>iterator end() noexcept { return iterator(end); }\<close>. As written, the argument
  names the member function itself. It is read here as the member \<open>_end\<close>, the
  placeholder node that follows the last element, so that the iterator holds its
  address. In \<open>xorlist.ixx\<close> the body of \<open>end()\<close> is the throw statement.
\<close>

definition xorlist_end :: "'a xorlist \<Rightarrow> iterator" where
  "xorlist_end s = \<lparr>ptr = end_self s\<rparr>"

text \<open>
  \<open>iterator begin() noexcept { iterator(end()++, this); }\<close>. The body evaluates
  \<open>end()++\<close>, builds a temporary iterator from it and discards it. There is no
  \<open>return\<close> statement: control flows off the end of a function that returns a value,
  and the behaviour of the call is undefined. No iterator is produced.
\<close>

definition xorlist_begin :: "'a xorlist \<Rightarrow> (iterator, 'a xorlist) result" where
  "xorlist_begin s =
     (let discarded = snd (iterator_post_inc (xorlist_end s)) in Inl Undefined)"

text \<open>
  \<open>reference operator*() const noexcept { return *ptr; }\<close>: the value of the element
  node at the address. It is defined when an element node lives there; the source's comment
  on \<open>end()\<close> says of the placeholder that "attempting to access it results in undefined
  behavior".
\<close>

definition iterator_deref :: "'a xorlist \<Rightarrow> iterator \<Rightarrow> 'a option" where
  "iterator_deref s it = map_option m_value (fmlookup (nodes s) (ptr it))"

text \<open>An \<open>iterator\<close> passed where a \<open>const_iterator\<close> is expected keeps its address.\<close>

definition to_const :: "iterator \<Rightarrow> const_iterator" where
  "to_const it = \<lparr>cptr = ptr it\<rparr>"

section \<open>Modifiers (xorlist.cpp, lines 655-946)\<close>

text \<open>
  Each of the following member functions has the single statement
  \<open>throw std::logic_error::logic_error("Not yet implemented");\<close> as its body, or
  forwards to one that has. A range \<open>[first, last)\<close> of an input iterator and an
  initialiser list are the lists of their values; \<open>args\<close> are the constructor arguments
  of \<open>emplace\<close>. Functions on two lists work on the pair (\<open>*this\<close>, \<open>other\<close>).
\<close>

text \<open>\<open>iterator insert(const_iterator pos, const value_type &value)\<close>\<close>

definition xorlist_insert ::
    "const_iterator \<Rightarrow> 'a \<Rightarrow> 'a xorlist \<Rightarrow> (iterator, 'a xorlist) result" where
  "xorlist_insert pos v s = not_yet_implemented s"

text \<open>\<open>iterator insert(const_iterator pos, value_type &&value)\<close>\<close>

definition xorlist_insert_rvalue ::
    "const_iterator \<Rightarrow> 'a \<Rightarrow> 'a xorlist \<Rightarrow> (iterator, 'a xorlist) result" where
  "xorlist_insert_rvalue pos v s = not_yet_implemented s"

text \<open>\<open>iterator insert(const_iterator pos, size_type count, const value_type &value)\<close>\<close>

definition xorlist_insert_count ::
    "const_iterator \<Rightarrow> 64 word \<Rightarrow> 'a \<Rightarrow> 'a xorlist \<Rightarrow> (iterator, 'a xorlist) result" where
  "xorlist_insert_count pos count v s = not_yet_implemented s"

text \<open>\<open>template <class InputIt> iterator insert(const_iterator pos, InputIt first, InputIt last)\<close>\<close>

definition xorlist_insert_range ::
    "const_iterator \<Rightarrow> 'a list \<Rightarrow> 'a xorlist \<Rightarrow> (iterator, 'a xorlist) result" where
  "xorlist_insert_range pos vals s = not_yet_implemented s"

text \<open>
  \<open>iterator insert(const_iterator pos, std::initializer_list<value_type> ilist)
  { return insert(pos, ilist.begin(), ilist.end()); }\<close>
\<close>

definition xorlist_insert_ilist ::
    "const_iterator \<Rightarrow> 'a list \<Rightarrow> 'a xorlist \<Rightarrow> (iterator, 'a xorlist) result" where
  "xorlist_insert_ilist pos ilist s = xorlist_insert_range pos ilist s"

text \<open>\<open>template <class... Args> iterator emplace(const_iterator pos, Args &&...args)\<close>\<close>

definition xorlist_emplace ::
    "const_iterator \<Rightarrow> 'b \<Rightarrow> 'a xorlist \<Rightarrow> (iterator, 'a xorlist) result" where
  "xorlist_emplace pos args s = not_yet_implemented s"

text \<open>\<open>iterator erase(const_iterator pos)\<close>\<close>

definition xorlist_erase ::
    "const_iterator \<Rightarrow> 'a xorlist \<Rightarrow> (iterator, 'a xorlist) result" where
  "xorlist_erase pos s = not_yet_implemented s"

text \<open>\<open>iterator erase(const_iterator first, const_iterator last)\<close>\<close>

definition xorlist_erase_range ::
    "const_iterator \<Rightarrow> const_iterator \<Rightarrow> 'a xorlist \<Rightarrow> (iterator, 'a xorlist) result" where
  "xorlist_erase_range first_it last_it s = not_yet_implemented s"

text \<open>\<open>void push_back(const value_type &value)\<close>\<close>

definition xorlist_push_back :: "'a \<Rightarrow> 'a xorlist \<Rightarrow> (unit, 'a xorlist) result" where
  "xorlist_push_back v s = not_yet_implemented s"

text \<open>\<open>void push_back(value_type &&value)\<close>\<close>

definition xorlist_push_back_rvalue :: "'a \<Rightarrow> 'a xorlist \<Rightarrow> (unit, 'a xorlist) result" where
  "xorlist_push_back_rvalue v s = not_yet_implemented s"

text \<open>
  \<open>template <class... Args> reference emplace_back(Args &&...args)\<close>; the reference it
  would return is the address of the new element.
\<close>

definition xorlist_emplace_back :: "'b \<Rightarrow> 'a xorlist \<Rightarrow> (pointer, 'a xorlist) result" where
  "xorlist_emplace_back args s = not_yet_implemented s"

text \<open>\<open>void pop_back()\<close>\<close>

definition xorlist_pop_back :: "'a xorlist \<Rightarrow> (unit, 'a xorlist) result" where
  "xorlist_pop_back s = not_yet_implemented s"

text \<open>\<open>void push_front(const value_type &value)\<close>\<close>

definition xorlist_push_front :: "'a \<Rightarrow> 'a xorlist \<Rightarrow> (unit, 'a xorlist) result" where
  "xorlist_push_front v s = not_yet_implemented s"

text \<open>\<open>void push_front(value_type &&value)\<close>\<close>

definition xorlist_push_front_rvalue :: "'a \<Rightarrow> 'a xorlist \<Rightarrow> (unit, 'a xorlist) result" where
  "xorlist_push_front_rvalue v s = not_yet_implemented s"

text \<open>\<open>template <class... Args> reference emplace_front(Args &&...args)\<close>\<close>

definition xorlist_emplace_front :: "'b \<Rightarrow> 'a xorlist \<Rightarrow> (pointer, 'a xorlist) result" where
  "xorlist_emplace_front args s = not_yet_implemented s"

text \<open>\<open>void pop_front()\<close>\<close>

definition xorlist_pop_front :: "'a xorlist \<Rightarrow> (unit, 'a xorlist) result" where
  "xorlist_pop_front s = not_yet_implemented s"

text \<open>\<open>void resize(size_type count)\<close>\<close>

definition xorlist_resize :: "64 word \<Rightarrow> 'a xorlist \<Rightarrow> (unit, 'a xorlist) result" where
  "xorlist_resize count s = not_yet_implemented s"

text \<open>\<open>void resize(size_type count, const value_type &value)\<close>\<close>

definition xorlist_resize_value ::
    "64 word \<Rightarrow> 'a \<Rightarrow> 'a xorlist \<Rightarrow> (unit, 'a xorlist) result" where
  "xorlist_resize_value count v s = not_yet_implemented s"

text \<open>
  \<open>void swap(xorlist &other)
  noexcept(std::allocator_traits<Allocator>::is_always_equal::value)
  { throw std::logic_error::logic_error("Not yet implemented"); }\<close>

  The exception specification is conditional on the allocator's trait.
\<close>

definition xorlist_swap ::
    "'a xorlist \<Rightarrow> 'a xorlist \<Rightarrow> (unit, 'a xorlist \<times> 'a xorlist) result" where
  "xorlist_swap this other =
     noexcept_if (is_always_equal (alloc this)) (not_yet_implemented (this, other))"

text \<open>
  Reading and writing through a node pointer. The member \<open>_end\<close> lives at
  \<open>end_self\<close>, the element nodes in \<open>nodes\<close>; an access to any other address has no
  defined result (\<open>None\<close>).
\<close>

definition node_at :: "'a xorlist \<Rightarrow> pointer \<Rightarrow> 'a node option" where
  "node_at s p = (if p = end_self s then Some (m_end s) else fmlookup (nodes s) p)"

text \<open>\<open>p->_link = v\<close>\<close>

definition store_link :: "pointer \<Rightarrow> pointer \<Rightarrow> 'a xorlist \<Rightarrow> 'a xorlist option" where
  "store_link p v s =
     (if p = end_self s then Some (s\<lparr>m_end := (m_end s)\<lparr>m_link := v\<rparr>\<rparr>)
      else (case fmlookup (nodes s) p of
              Some n \<Rightarrow> Some (s\<lparr>nodes := fmupd p (n\<lparr>m_link := v\<rparr>) (nodes s)\<rparr>)
            | None \<Rightarrow> None))"

text \<open>
  \<open>inline void __unlink_nodes(_node<T> *__f, _node<T> *__l) noexcept
  { __f->_link = __f; __l->_link = __l; }\<close>
\<close>

definition unlink_nodes :: "pointer \<Rightarrow> pointer \<Rightarrow> 'a xorlist \<Rightarrow> 'a xorlist option" where
  "unlink_nodes f l s = Option.bind (store_link f f s) (store_link l l)"

text \<open>
  \<open>__node_alloc_traits::destroy(__na, std::addressof(__np->_value));
  __node_alloc_traits::deallocate(__na, __np, 1);\<close> gives the storage of one node back.
  It is defined for a node that came from the allocator.
\<close>

definition deallocate :: "pointer \<Rightarrow> 'a xorlist \<Rightarrow> 'a xorlist option" where
  "deallocate np s =
     (if np |\<in>| fmdom (nodes s) then Some (s\<lparr>nodes := fmdrop np (nodes s)\<rparr>) else None)"

text \<open>
  The loop of \<open>clear()\<close>:

  \<open>while (__f != __l) {
      __node_pointer __np = __f->_as_node();
      __f = __f->_link;
      __node_alloc_traits::destroy(__na, std::addressof(__np->_value));
      __node_alloc_traits::deallocate(__na, __np, 1);
  }\<close>
\<close>

function clear_loop :: "pointer \<Rightarrow> pointer \<Rightarrow> 'a xorlist \<Rightarrow> (unit, 'a xorlist) result" where
  "clear_loop f l s =
     (if f \<noteq> l then
        (let np = f in
         case node_at s f of
           None \<Rightarrow> Inl Undefined
         | Some n \<Rightarrow>
             (let f1 = m_link n in
              case deallocate np s of
                None \<Rightarrow> Inl Undefined
              | Some s1 \<Rightarrow> clear_loop f1 l s1))
      else Inr ((), s))"
  by pat_completeness auto
termination
proof (relation "measure (\<lambda>(f, l, s). fcard (fmdom (nodes s)))")
  show "wf (measure (\<lambda>(f, l, s). fcard (fmdom (nodes s))))"
    by simp
next
  fix f l np f1 :: pointer and s s1 :: "'a xorlist"
  assume "deallocate np s = Some s1"
  then have mem: "np |\<in>| fmdom (nodes s)"
    and eq: "nodes s1 = fmdrop np (nodes s)"
    by (auto simp: deallocate_def split: if_splits)
  have "fmdom (nodes s1) = fmdom (nodes s) |-| {|np|}"
    by (simp add: eq)
  moreover have "fcard (fmdom (nodes s) |-| {|np|}) < fcard (fmdom (nodes s))"
    using mem by (rule fcard_fminus1_less)
  ultimately have "fcard (fmdom (nodes s1)) < fcard (fmdom (nodes s))"
    by (simp only:)
  then show "((f1, l, s1), f, l, s) \<in> measure (\<lambda>(f, l, s). fcard (fmdom (nodes s)))"
    by simp
qed

declare clear_loop.simps [simp del]

text \<open>
  \<open>void clear() noexcept {
      if (!empty()) {
          __node_allocator &__na = __node_alloc();
          __node_pointer __f = _end._link;
          __node_pointer __l = __f;
          __unlink_nodes(__f, __l--);
          _size = 0;
          while (__f != __l) { ... }
      }
  }\<close>

  \<open>__l--\<close> passes the old value of \<open>__l\<close> and then moves \<open>__l\<close> one node back.
\<close>

definition xorlist_clear :: "'a xorlist \<Rightarrow> (unit, 'a xorlist) result" where
  "xorlist_clear s =
     (if \<not> xorlist_empty s then
        (let f = m_link (m_end s); l = f in
         case unlink_nodes f l s of
           None \<Rightarrow> Inl Undefined
         | Some s1 \<Rightarrow>
             (let l1 = l - 1; s2 = s1\<lparr>m_size := 0\<rparr> in clear_loop f l1 s2))
      else Inr ((), s))"

section \<open>The constructors that fill the list (xorlist.cpp, lines 260-367)\<close>

text \<open>
  \<open>xorlist(size_type count, const value_type &value, const Allocator &alloc = Allocator())
  : alloc(alloc) { for (; count > 0; --count) push_back(value); }\<close>
\<close>

function ctor_fill_loop :: "64 word \<Rightarrow> 'a \<Rightarrow> 'a xorlist \<Rightarrow> (unit, 'a xorlist) result" where
  "ctor_fill_loop count v s =
     (if count > 0 then
        (case xorlist_push_back v s of
           Inr (u, s1) \<Rightarrow> ctor_fill_loop (count - 1) v s1
         | Inl f \<Rightarrow> Inl f)
      else Inr ((), s))"
  by pat_completeness auto
termination
  by (relation "measure (\<lambda>(count, v, s). unat count)")
     (auto simp: unat_minus_one word_neq_0_conv [symmetric] unat_gt_0)

declare ctor_fill_loop.simps [simp del]

definition xorlist_fill ::
    "allocator \<Rightarrow> pointer \<Rightarrow> 'a \<Rightarrow> 64 word \<Rightarrow> 'a \<Rightarrow> (unit, 'a xorlist) result" where
  "xorlist_fill a self d count v = ctor_fill_loop count v (xorlist_default a self d)"

text \<open>
  \<open>explicit xorlist(size_type count, const Allocator &alloc = Allocator())
  : alloc(alloc) { for (; count > 0; --count) emplace_back(); }\<close>
\<close>

function ctor_count_loop :: "64 word \<Rightarrow> 'a xorlist \<Rightarrow> (unit, 'a xorlist) result" where
  "ctor_count_loop count s =
     (if count > 0 then
        (case xorlist_emplace_back () s of
           Inr (r, s1) \<Rightarrow> ctor_count_loop (count - 1) s1
         | Inl f \<Rightarrow> Inl f)
      else Inr ((), s))"
  by pat_completeness auto
termination
  by (relation "measure (\<lambda>(count, s). unat count)")
     (auto simp: unat_minus_one word_neq_0_conv [symmetric] unat_gt_0)

declare ctor_count_loop.simps [simp del]

definition xorlist_count ::
    "allocator \<Rightarrow> pointer \<Rightarrow> 'a \<Rightarrow> 64 word \<Rightarrow> (unit, 'a xorlist) result" where
  "xorlist_count a self d count = ctor_count_loop count (xorlist_default a self d)"

text \<open>
  \<open>template <class InputIt> xorlist(InputIt first, InputIt last, const Allocator &alloc)
  : alloc(alloc) { for (; first != last; ++first) emplace_back(*first); }\<close>
\<close>

fun ctor_range_loop :: "'a list \<Rightarrow> 'a xorlist \<Rightarrow> (unit, 'a xorlist) result" where
  "ctor_range_loop [] s = Inr ((), s)"
| "ctor_range_loop (x # xs) s =
     (case xorlist_emplace_back x s of
        Inr (r, s1) \<Rightarrow> ctor_range_loop xs s1
      | Inl f \<Rightarrow> Inl f)"

definition xorlist_range ::
    "allocator \<Rightarrow> pointer \<Rightarrow> 'a \<Rightarrow> 'a list \<Rightarrow> (unit, 'a xorlist) result" where
  "xorlist_range a self d vals = ctor_range_loop vals (xorlist_default a self d)"

text \<open>
  \<open>xorlist(std::initializer_list<value_type> init, const Allocator &alloc = Allocator())
  : alloc(alloc) { for (i = init.begin(), e = init.end(); i != e; ++i) push_back(*i); }\<close>
\<close>

fun ctor_init_loop :: "'a list \<Rightarrow> 'a xorlist \<Rightarrow> (unit, 'a xorlist) result" where
  "ctor_init_loop [] s = Inr ((), s)"
| "ctor_init_loop (x # xs) s =
     (case xorlist_push_back x s of
        Inr (u, s1) \<Rightarrow> ctor_init_loop xs s1
      | Inl f \<Rightarrow> Inl f)"

definition xorlist_init ::
    "allocator \<Rightarrow> pointer \<Rightarrow> 'a \<Rightarrow> 'a list \<Rightarrow> (unit, 'a xorlist) result" where
  "xorlist_init a self d init = ctor_init_loop init (xorlist_default a self d)"

section \<open>Operations (xorlist.cpp, lines 948-1287)\<close>

text \<open>
  \<open>template <class Compare> void merge(xorlist &other, Compare comp)
  { throw std::logic_error::logic_error("Not yet implemented"); }\<close>
\<close>

definition xorlist_merge_comp ::
    "('a \<Rightarrow> 'a \<Rightarrow> bool) \<Rightarrow> 'a xorlist \<Rightarrow> 'a xorlist
     \<Rightarrow> (unit, 'a xorlist \<times> 'a xorlist) result" where
  "xorlist_merge_comp cmp this other = not_yet_implemented (this, other)"

text \<open>\<open>void merge(xorlist &other) { merge(other, std::less<value_type>()); }\<close>\<close>

definition xorlist_merge ::
    "('a :: ord) xorlist \<Rightarrow> 'a xorlist \<Rightarrow> (unit, 'a xorlist \<times> 'a xorlist) result" where
  "xorlist_merge this other = xorlist_merge_comp (<) this other"

text \<open>\<open>void merge(xorlist &&other) { merge(other); }\<close>\<close>

definition xorlist_merge_rvalue ::
    "('a :: ord) xorlist \<Rightarrow> 'a xorlist \<Rightarrow> (unit, 'a xorlist \<times> 'a xorlist) result" where
  "xorlist_merge_rvalue this other = xorlist_merge this other"

text \<open>
  \<open>template <class Compare> void merge(xorlist &&other, Compare comp)
  { merge(other, comp); }\<close>
\<close>

definition xorlist_merge_rvalue_comp ::
    "('a \<Rightarrow> 'a \<Rightarrow> bool) \<Rightarrow> 'a xorlist \<Rightarrow> 'a xorlist
     \<Rightarrow> (unit, 'a xorlist \<times> 'a xorlist) result" where
  "xorlist_merge_rvalue_comp cmp this other = xorlist_merge_comp cmp this other"

text \<open>
  \<open>void splice(const_iterator pos, xorlist &other)
  { throw std::logic_error::logic_error("Not yet implemented"); }\<close>
\<close>

definition xorlist_splice ::
    "const_iterator \<Rightarrow> 'a xorlist \<Rightarrow> 'a xorlist
     \<Rightarrow> (unit, 'a xorlist \<times> 'a xorlist) result" where
  "xorlist_splice pos this other = not_yet_implemented (this, other)"

text \<open>\<open>void splice(const_iterator pos, xorlist &&other) { splice(pos, other); }\<close>\<close>

definition xorlist_splice_rvalue ::
    "const_iterator \<Rightarrow> 'a xorlist \<Rightarrow> 'a xorlist
     \<Rightarrow> (unit, 'a xorlist \<times> 'a xorlist) result" where
  "xorlist_splice_rvalue pos this other = xorlist_splice pos this other"

text \<open>
  \<open>void splice(const_iterator pos, xorlist &other, const_iterator it)
  { throw std::logic_error::logic_error("Not yet implemented"); }\<close>
\<close>

definition xorlist_splice_one ::
    "const_iterator \<Rightarrow> const_iterator \<Rightarrow> 'a xorlist \<Rightarrow> 'a xorlist
     \<Rightarrow> (unit, 'a xorlist \<times> 'a xorlist) result" where
  "xorlist_splice_one pos it this other = not_yet_implemented (this, other)"

text \<open>
  \<open>void splice(const_iterator pos, xorlist &&other, const_iterator it)
  { splice(pos, other, it); }\<close>
\<close>

definition xorlist_splice_one_rvalue ::
    "const_iterator \<Rightarrow> const_iterator \<Rightarrow> 'a xorlist \<Rightarrow> 'a xorlist
     \<Rightarrow> (unit, 'a xorlist \<times> 'a xorlist) result" where
  "xorlist_splice_one_rvalue pos it this other = xorlist_splice_one pos it this other"

text \<open>
  \<open>void splice(const_iterator pos, xorlist &other, const_iterator first,
  const_iterator last) { throw std::logic_error::logic_error("Not yet implemented"); }\<close>
\<close>

definition xorlist_splice_range ::
    "const_iterator \<Rightarrow> const_iterator \<Rightarrow> const_iterator \<Rightarrow> 'a xorlist \<Rightarrow> 'a xorlist
     \<Rightarrow> (unit, 'a xorlist \<times> 'a xorlist) result" where
  "xorlist_splice_range pos first_it last_it this other = not_yet_implemented (this, other)"

text \<open>
  \<open>void splice(const_iterator pos, xorlist &&other, const_iterator first,
  const_iterator last) { splice(pos, other, first, last); }\<close>
\<close>

definition xorlist_splice_range_rvalue ::
    "const_iterator \<Rightarrow> const_iterator \<Rightarrow> const_iterator \<Rightarrow> 'a xorlist \<Rightarrow> 'a xorlist
     \<Rightarrow> (unit, 'a xorlist \<times> 'a xorlist) result" where
  "xorlist_splice_range_rvalue pos first_it last_it this other =
     xorlist_splice_range pos first_it last_it this other"

text \<open>
  \<open>template <class Compare> void sort(Compare comp)
  { throw std::logic_error::logic_error("Not yet implemented"); }\<close>
\<close>

definition xorlist_sort_comp ::
    "('a \<Rightarrow> 'a \<Rightarrow> bool) \<Rightarrow> 'a xorlist \<Rightarrow> (unit, 'a xorlist) result" where
  "xorlist_sort_comp cmp s = not_yet_implemented s"

text \<open>\<open>void sort() { sort(std::less<value_type>()); }\<close>\<close>

definition xorlist_sort :: "('a :: ord) xorlist \<Rightarrow> (unit, 'a xorlist) result" where
  "xorlist_sort s = xorlist_sort_comp (<) s"

text \<open>
  \<open>void reverse() noexcept {
      if (_size > 1) {
          iterator e = end();
          for (iterator i = begin(); *i != *e;) {
              std::swap((*i)--, (*i)++);
              *i = (*i)--;
          }
          std::swap((*e)--, (*e)++);
      }
  }\<close>

  Lists of at most one element are left alone. For longer lists the function takes
  the iterators \<open>end()\<close> and \<open>begin()\<close>. What follows the initialisation
  \<open>iterator i = begin()\<close> applies \<open>--\<close> and \<open>++\<close> to element values and hands the
  results, which are temporaries, to \<open>std::swap\<close>; these statements are the parameter
  \<open>rest\<close> of the model (it is given \<open>i\<close>, \<open>e\<close> and the state), so that what is proved
  of \<open>xorlist_reverse\<close> holds whatever they do.
\<close>

definition xorlist_reverse ::
    "(iterator \<Rightarrow> iterator \<Rightarrow> 'a xorlist \<Rightarrow> (unit, 'a xorlist) result)
     \<Rightarrow> 'a xorlist \<Rightarrow> (unit, 'a xorlist) result" where
  "xorlist_reverse rest s =
     noexcept_if True
       (if m_size s > 1 then
          (let e = xorlist_end s in
           case xorlist_begin s of
             Inr (i, s1) \<Rightarrow> rest i e s1
           | Inl f \<Rightarrow> Inl f)
        else Inr ((), s))"

text \<open>
  In \<open>xorlist.ixx\<close> (line 956) the same member function is still

  \<open>void reverse() noexcept { throw std::logic_error::logic_error("Not yet implemented"); }\<close>

  The exception cannot leave a function that is \<open>noexcept\<close>.
\<close>

definition xorlist_reverse_ixx :: "'a xorlist \<Rightarrow> (unit, 'a xorlist) result" where
  "xorlist_reverse_ixx s = noexcept_if True (not_yet_implemented s)"

text \<open>
  The inner loop of \<open>unique\<close>: \<open>for (; j != e && p(*i, *j); ++j) ;\<close>. It returns the
  final \<open>j\<close>, or \<open>None\<close> when it dereferences an iterator that points at no element.
\<close>

function unique_inner ::
    "('a \<Rightarrow> 'a \<Rightarrow> bool) \<Rightarrow> 'a xorlist \<Rightarrow> iterator \<Rightarrow> iterator \<Rightarrow> iterator
     \<Rightarrow> iterator option" where
  "unique_inner p s i e j =
     (if \<not> iterator_eq j e then
        (case (iterator_deref s i, iterator_deref s j) of
           (Some x, Some y) \<Rightarrow>
             if p x y then unique_inner p s i e (fst (iterator_pre_inc j)) else Some j
         | _ \<Rightarrow> None)
      else Some j)"
  by pat_completeness auto
termination
proof (relation "measure (\<lambda>(p, s, i, e, j). unat (ptr e - ptr j))")
  show "wf (measure (\<lambda>(p, s, i, e, j). unat (ptr e - ptr j)))"
    by simp
next
  fix p :: "'a \<Rightarrow> 'a \<Rightarrow> bool" and s :: "'a xorlist" and i e j :: iterator
  assume "\<not> iterator_eq j e"
  then have "ptr e - ptr j \<noteq> 0"
    by (simp add: iterator_eq_def)
  then have less: "unat (ptr e - ptr j - 1) < unat (ptr e - ptr j)"
    by (simp add: unat_minus_one unat_gt_0)
  have eq: "ptr e - (ptr j + 1) = ptr e - ptr j - 1"
    by simp
  have "unat (ptr e - (ptr j + 1)) < unat (ptr e - ptr j)"
    unfolding eq by (rule less)
  then show "((p, s, i, e, fst (iterator_pre_inc j)), p, s, i, e, j)
      \<in> measure (\<lambda>(p, s, i, e, j). unat (ptr e - ptr j))"
    by (simp add: iterator_pre_inc_def Let_def)
qed

declare unique_inner.simps [simp del]

text \<open>
  The outer loop of \<open>unique\<close>, with the local list \<open>deleted_nodes\<close> as \<open>deleted\<close>:

  \<open>for (iterator i = begin(), e = end(); i != e;) {
      iterator j = std::next(i);
      for (; j != e && p(*i, *j); ++j) ;
      if (++i != j) {
          deleted_nodes.splice(deleted_nodes.end(), *this, i, j);
          i = j;
      }
  }
  return deleted_nodes.size();\<close>

  An exception of \<open>splice\<close> leaves \<open>unique\<close>; the list it leaves behind is \<open>*this\<close>.
\<close>

function unique_loop ::
    "('a \<Rightarrow> 'a \<Rightarrow> bool) \<Rightarrow> 'a xorlist \<Rightarrow> iterator \<Rightarrow> iterator \<Rightarrow> 'a xorlist
     \<Rightarrow> (64 word, 'a xorlist) result" where
  "unique_loop p deleted i e s =
     (if \<not> iterator_eq i e then
        (case unique_inner p s i e (std_next i) of
           None \<Rightarrow> Inl Undefined
         | Some j \<Rightarrow>
             (let i1 = fst (iterator_pre_inc i) in
              if \<not> iterator_eq i1 j then
                (case xorlist_splice_range (to_const (xorlist_end deleted))
                        (to_const i1) (to_const j) deleted s of
                   Inr (u, ds) \<Rightarrow> unique_loop p (fst ds) j e (snd ds)
                 | Inl f \<Rightarrow> Inl (map_failure snd f))
              else unique_loop p deleted i1 e s))
      else Inr (xorlist_size deleted, s))"
  by pat_completeness auto
termination
proof (relation "measure (\<lambda>(p, deleted, i, e, s). unat (ptr e - ptr i))")
  show "wf (measure (\<lambda>(p, deleted, i, e, s). unat (ptr e - ptr i)))"
    by simp
next
  fix p :: "'a \<Rightarrow> 'a \<Rightarrow> bool" and deleted s :: "'a xorlist" and i e j i1 :: iterator
    and r :: "unit \<times> 'a xorlist \<times> 'a xorlist" and u :: unit and ds :: "'a xorlist \<times> 'a xorlist"
  assume "xorlist_splice_range (to_const (xorlist_end deleted)) (to_const i1) (to_const j)
            deleted s = Inr r"
  then have False
    by (simp add: xorlist_splice_range_def not_yet_implemented_def)
  then show "((p, fst ds, j, e, snd ds), p, deleted, i, e, s)
      \<in> measure (\<lambda>(p, deleted, i, e, s). unat (ptr e - ptr i))" ..
next
  fix p :: "'a \<Rightarrow> 'a \<Rightarrow> bool" and deleted s :: "'a xorlist" and i e i1 :: iterator
  assume i1: "i1 = fst (iterator_pre_inc i)"
  assume "\<not> iterator_eq i e"
  then have "ptr e - ptr i \<noteq> 0"
    by (simp add: iterator_eq_def)
  then have less: "unat (ptr e - ptr i - 1) < unat (ptr e - ptr i)"
    by (simp add: unat_minus_one unat_gt_0)
  have eq: "ptr e - (ptr i + 1) = ptr e - ptr i - 1"
    by simp
  have "unat (ptr e - (ptr i + 1)) < unat (ptr e - ptr i)"
    unfolding eq by (rule less)
  then show "((p, deleted, i1, e, s), p, deleted, i, e, s)
      \<in> measure (\<lambda>(p, deleted, i, e, s). unat (ptr e - ptr i))"
    by (simp add: i1 iterator_pre_inc_def Let_def)
qed

declare unique_loop.simps [simp del]

text \<open>
  \<open>template <class BinaryPredicate> size_type unique(BinaryPredicate p) {
      xorlist<value_type, Allocator> deleted_nodes(get_allocator());
      for (iterator i = begin(), e = end(); i != e;) { ... }
      return deleted_nodes.size();
  }\<close>

  \<open>dself\<close> is the address of the member \<open>_end\<close> of the local list and \<open>d\<close> its
  default-initialised value.
\<close>

definition xorlist_unique_pred ::
    "('a \<Rightarrow> 'a \<Rightarrow> bool) \<Rightarrow> pointer \<Rightarrow> 'a \<Rightarrow> 'a xorlist \<Rightarrow> (64 word, 'a xorlist) result" where
  "xorlist_unique_pred p dself d s =
     (let deleted = xorlist_default (get_allocator s) dself d in
      case xorlist_begin s of
        Inr (i, s1) \<Rightarrow> unique_loop p deleted i (xorlist_end s1) s1
      | Inl f \<Rightarrow> Inl f)"

text \<open>\<open>size_type unique() { return unique(std::equal_to<value_type>()); }\<close>\<close>

definition xorlist_unique ::
    "pointer \<Rightarrow> 'a \<Rightarrow> 'a xorlist \<Rightarrow> (64 word, 'a xorlist) result" where
  "xorlist_unique dself d s = xorlist_unique_pred (=) dself d s"

section \<open>The states a list can reach\<close>

text \<open>
  A call of a member function that changes the list, with its arguments: the modifiers
  \<open>clear\<close>, \<open>insert\<close>, \<open>emplace\<close>, \<open>erase\<close>, \<open>push_back\<close>, \<open>emplace_back\<close>, \<open>pop_back\<close>,
  \<open>push_front\<close>, \<open>emplace_front\<close>, \<open>pop_front\<close>, \<open>resize\<close> and \<open>swap\<close>, and the operations
  \<open>merge\<close>, \<open>splice\<close>, \<open>reverse\<close>, \<open>unique\<close> and \<open>sort\<close>, in all their overloads. \<open>other\<close>
  is the second list of a function on two lists. (\<open>assign\<close>, \<open>remove\<close> and \<open>remove_if\<close>
  are not among the calls.)
\<close>

datatype ('a, 'b) call =
    Clear
  | Insert const_iterator 'a
  | Insert_rvalue const_iterator 'a
  | Insert_count const_iterator "64 word" 'a
  | Insert_range const_iterator "'a list"
  | Insert_ilist const_iterator "'a list"
  | Emplace const_iterator 'b
  | Erase const_iterator
  | Erase_range const_iterator const_iterator
  | Push_back 'a
  | Push_back_rvalue 'a
  | Emplace_back 'b
  | Pop_back
  | Push_front 'a
  | Push_front_rvalue 'a
  | Emplace_front 'b
  | Pop_front
  | Resize "64 word"
  | Resize_value "64 word" 'a
  | Swap "'a xorlist"
  | Merge "'a xorlist"
  | Merge_rvalue "'a xorlist"
  | Merge_comp "'a \<Rightarrow> 'a \<Rightarrow> bool" "'a xorlist"
  | Merge_rvalue_comp "'a \<Rightarrow> 'a \<Rightarrow> bool" "'a xorlist"
  | Splice const_iterator "'a xorlist"
  | Splice_rvalue const_iterator "'a xorlist"
  | Splice_one const_iterator const_iterator "'a xorlist"
  | Splice_one_rvalue const_iterator const_iterator "'a xorlist"
  | Splice_range const_iterator const_iterator const_iterator "'a xorlist"
  | Splice_range_rvalue const_iterator const_iterator const_iterator "'a xorlist"
  | Reverse "iterator \<Rightarrow> iterator \<Rightarrow> 'a xorlist \<Rightarrow> (unit, 'a xorlist) result"
  | Unique pointer 'a
  | Unique_pred "'a \<Rightarrow> 'a \<Rightarrow> bool" pointer 'a
  | Sort
  | Sort_comp "'a \<Rightarrow> 'a \<Rightarrow> bool"

text \<open>
  The list with which the caller goes on after a call: the one the call returned
  with, or the one it had when it threw (the caller catches the exception). After
  \<open>std::terminate\<close> or undefined behaviour there is none. \<open>proj\<close> picks \<open>*this\<close> out of
  the state of the call.
\<close>

fun after :: "('s \<Rightarrow> 't) \<Rightarrow> ('r, 's) result \<Rightarrow> 't option" where
  "after proj (Inr (r, s)) = Some (proj s)"
| "after proj (Inl (Thrown e s)) = Some (proj s)"
| "after proj (Inl Terminated) = None"
| "after proj (Inl Undefined) = None"

fun perform :: "('a :: ord, 'b) call \<Rightarrow> 'a xorlist \<Rightarrow> 'a xorlist option" where
  "perform Clear s = after id (xorlist_clear s)"
| "perform (Insert pos v) s = after id (xorlist_insert pos v s)"
| "perform (Insert_rvalue pos v) s = after id (xorlist_insert_rvalue pos v s)"
| "perform (Insert_count pos count v) s = after id (xorlist_insert_count pos count v s)"
| "perform (Insert_range pos vals) s = after id (xorlist_insert_range pos vals s)"
| "perform (Insert_ilist pos ilist) s = after id (xorlist_insert_ilist pos ilist s)"
| "perform (Emplace pos args) s = after id (xorlist_emplace pos args s)"
| "perform (Erase pos) s = after id (xorlist_erase pos s)"
| "perform (Erase_range first_it last_it) s = after id (xorlist_erase_range first_it last_it s)"
| "perform (Push_back v) s = after id (xorlist_push_back v s)"
| "perform (Push_back_rvalue v) s = after id (xorlist_push_back_rvalue v s)"
| "perform (Emplace_back args) s = after id (xorlist_emplace_back args s)"
| "perform Pop_back s = after id (xorlist_pop_back s)"
| "perform (Push_front v) s = after id (xorlist_push_front v s)"
| "perform (Push_front_rvalue v) s = after id (xorlist_push_front_rvalue v s)"
| "perform (Emplace_front args) s = after id (xorlist_emplace_front args s)"
| "perform Pop_front s = after id (xorlist_pop_front s)"
| "perform (Resize count) s = after id (xorlist_resize count s)"
| "perform (Resize_value count v) s = after id (xorlist_resize_value count v s)"
| "perform (Swap other) s = after fst (xorlist_swap s other)"
| "perform (Merge other) s = after fst (xorlist_merge s other)"
| "perform (Merge_rvalue other) s = after fst (xorlist_merge_rvalue s other)"
| "perform (Merge_comp cmp other) s = after fst (xorlist_merge_comp cmp s other)"
| "perform (Merge_rvalue_comp cmp other) s = after fst (xorlist_merge_rvalue_comp cmp s other)"
| "perform (Splice pos other) s = after fst (xorlist_splice pos s other)"
| "perform (Splice_rvalue pos other) s = after fst (xorlist_splice_rvalue pos s other)"
| "perform (Splice_one pos it other) s = after fst (xorlist_splice_one pos it s other)"
| "perform (Splice_one_rvalue pos it other) s =
     after fst (xorlist_splice_one_rvalue pos it s other)"
| "perform (Splice_range pos first_it last_it other) s =
     after fst (xorlist_splice_range pos first_it last_it s other)"
| "perform (Splice_range_rvalue pos first_it last_it other) s =
     after fst (xorlist_splice_range_rvalue pos first_it last_it s other)"
| "perform (Reverse rest) s = after id (xorlist_reverse rest s)"
| "perform (Unique dself d) s = after id (xorlist_unique dself d s)"
| "perform (Unique_pred p dself d) s = after id (xorlist_unique_pred p dself d s)"
| "perform Sort s = after id (xorlist_sort s)"
| "perform (Sort_comp cmp) s = after id (xorlist_sort_comp cmp s)"

text \<open>
  A list is reachable when a constructor built it, or a call was made on a reachable
  list. The member \<open>_end\<close> of an object is not at the null address. The constructors
  that fill the list give a list only when they return.
\<close>

inductive reachable :: "('a :: ord) xorlist \<Rightarrow> bool" where
  constructed:
    "self \<noteq> nullptr \<Longrightarrow> reachable (xorlist_default a self d)"
| constructed_fill:
    "self \<noteq> nullptr \<Longrightarrow> xorlist_fill a self d count v = Inr ((), s) \<Longrightarrow> reachable s"
| constructed_count:
    "self \<noteq> nullptr \<Longrightarrow> xorlist_count a self d count = Inr ((), s) \<Longrightarrow> reachable s"
| constructed_range:
    "self \<noteq> nullptr \<Longrightarrow> xorlist_range a self d vals = Inr ((), s) \<Longrightarrow> reachable s"
| constructed_init:
    "self \<noteq> nullptr \<Longrightarrow> xorlist_init a self d init = Inr ((), s) \<Longrightarrow> reachable s"
| called:
    "reachable s \<Longrightarrow> perform (c :: ('a, 'a) call) s = Some s1 \<Longrightarrow> reachable s1"

section \<open>The link invariant of the specification\<close>

text \<open>
  The specification asks of the sentinel that its link field be
  \<open>address(last) XOR address(first)\<close>, "both equal to itself when the list is empty".
  For an empty list, in the specification's words:
\<close>

definition spec_empty_sentinel_link :: "'a xorlist \<Rightarrow> bool" where
  "spec_empty_sentinel_link s = (m_link (m_end s) = end_self s XOR end_self s)"

section \<open>A list of the test suite, laid out in memory\<close>

text \<open>
  The test \<open>unique()\<close> of the repository uses the list \<open>{1, 2, 2, 3, 3, 2, 1, 1, 2}\<close>.
  No constructor builds it, so this state is written down by hand: nine element nodes
  at the consecutive addresses 0x2000 to 0x2008, which is the layout the iterator's
  \<open>ptr++\<close> walks, the member \<open>_end\<close> right behind them at 0x2009, and the count 9.
\<close>

definition unique_test_state :: "int xorlist" where
  "unique_test_state =
     (xorlist_default std_allocator 0x2009 0)
       \<lparr>m_size := 9,
        nodes := fmap_of_list
          [(0x2000, \<lparr>m_link = 0x2000, m_value = 1\<rparr>),
           (0x2001, \<lparr>m_link = 0x2001, m_value = 2\<rparr>),
           (0x2002, \<lparr>m_link = 0x2002, m_value = 2\<rparr>),
           (0x2003, \<lparr>m_link = 0x2003, m_value = 3\<rparr>),
           (0x2004, \<lparr>m_link = 0x2004, m_value = 3\<rparr>),
           (0x2005, \<lparr>m_link = 0x2005, m_value = 2\<rparr>),
           (0x2006, \<lparr>m_link = 0x2006, m_value = 1\<rparr>),
           (0x2007, \<lparr>m_link = 0x2007, m_value = 1\<rparr>),
           (0x2008, \<lparr>m_link = 0x2008, m_value = 2\<rparr>)]\<rparr>"

section \<open>Iterators: results\<close>

lemma const_iterator_pre_inc_no_result: "const_iterator_pre_inc this = Some r \<Longrightarrow> False"
  by (rule const_iterator_pre_inc.raw_induct [where P = "\<lambda>_ _. False"])
     (auto simp: Let_def split: Option.bind_splits)

lemma const_iterator_pre_inc_diverges: "const_iterator_pre_inc this = None"
  using const_iterator_pre_inc_no_result [of this]
  by (cases "const_iterator_pre_inc this") auto

text \<open>
  Claim C10. The prefix increment of \<open>const_iterator\<close> returns for no iterator value:
  its body calls the prefix increment on \<open>*this\<close> again, without a base case. The
  postfix increment carries the body a prefix increment would have (it advances the
  address and returns the advanced iterator), while the two decrement operators are
  written the usual way, so increment and decrement of \<open>const_iterator\<close> are not
  symmetric.
\<close>

theorem const_iterator_pre_increment_never_returns:
  "const_iterator_pre_inc this = None
   \<and> const_iterator_post_inc this =
       (this\<lparr>cptr := cptr this + 1\<rparr>, this\<lparr>cptr := cptr this + 1\<rparr>)
   \<and> const_iterator_pre_dec this =
       (this\<lparr>cptr := cptr this - 1\<rparr>, this\<lparr>cptr := cptr this - 1\<rparr>)
   \<and> const_iterator_post_dec this = (this\<lparr>cptr := cptr this - 1\<rparr>, this)"
proof -
  have "const_iterator_pre_inc this = None"
    by (rule const_iterator_pre_inc_diverges)
  moreover have "const_iterator_post_inc this =
      (this\<lparr>cptr := cptr this + 1\<rparr>, this\<lparr>cptr := cptr this + 1\<rparr>)"
    by (simp add: const_iterator_post_inc_def Let_def)
  moreover have "const_iterator_pre_dec this =
      (this\<lparr>cptr := cptr this - 1\<rparr>, this\<lparr>cptr := cptr this - 1\<rparr>)"
    by (simp add: const_iterator_pre_dec_def Let_def)
  moreover have "const_iterator_post_dec this = (this\<lparr>cptr := cptr this - 1\<rparr>, this)"
    by (simp add: const_iterator_post_dec_def const_iterator_pre_dec_def Let_def)
  ultimately show ?thesis by blast
qed

text \<open>
  Claim C1, as stated, at a concrete ring. The sentinel is at address 0x1000 and two
  elements at 0x2000 and 0x4000, with the link fields the specification prescribes:
  sentinel 0x4000 XOR 0x2000 = 0x6000, first element 0x1000 XOR 0x4000 = 0x5000, second
  element 0x2000 XOR 0x1000 = 0x3000. From the cursor (0x2000, 0x1000) the decoding rule
  of the specification moves to the second element at 0x4000; the iterator of the source
  at 0x2000 moves to 0x2001, and reads no link field to do so.
\<close>

theorem iterator_increment_is_not_the_link_codec:
  "fst (spec_increment
         ((\<lambda>a. 0)(0x1000 := 0x6000, 0x2000 := 0x5000, 0x4000 := 0x3000))
         (0x2000, 0x1000)) = 0x4000
   \<and> ptr (snd (iterator_pre_inc \<lparr>ptr = 0x2000\<rparr>)) = 0x2001
   \<and> ptr (snd (iterator_pre_inc \<lparr>ptr = 0x2000\<rparr>))
       \<noteq> fst (spec_increment
               ((\<lambda>a. 0)(0x1000 := 0x6000, 0x2000 := 0x5000, 0x4000 := 0x3000))
               (0x2000, 0x1000))"
  by (simp add: spec_increment_def spec_codec_def iterator_pre_inc_def Let_def)

text \<open>
  Claim C1, amended. The iterator of the list is a cursor of one address. The prefix
  increment moves the address forward by one object and returns the advanced iterator;
  the postfix increment moves it likewise and returns the iterator as it was; the
  decrements do the same with one object backward. No operator reads a link field. Two
  iterators are equal exactly when their addresses are equal, and a decrement undoes
  an increment.
\<close>

theorem iterator_is_a_single_address_cursor:
  "iterator_pre_inc it = (it\<lparr>ptr := ptr it + 1\<rparr>, it\<lparr>ptr := ptr it + 1\<rparr>)
   \<and> iterator_post_inc it = (it\<lparr>ptr := ptr it + 1\<rparr>, it)
   \<and> iterator_pre_dec it = (it\<lparr>ptr := ptr it - 1\<rparr>, it\<lparr>ptr := ptr it - 1\<rparr>)
   \<and> iterator_post_dec it = (it\<lparr>ptr := ptr it - 1\<rparr>, it)
   \<and> iterator_eq it rhs = (ptr it = ptr rhs)
   \<and> fst (iterator_pre_dec (fst (iterator_pre_inc it))) = it
   \<and> fst (iterator_pre_inc (fst (iterator_pre_dec it))) = it"
  by (simp add: iterator_pre_inc_def iterator_post_inc_def iterator_pre_dec_def
      iterator_post_dec_def iterator_eq_def Let_def)

section \<open>The list: auxiliary facts\<close>

lemma xorlist_begin_undefined: "xorlist_begin s = Inl Undefined"
  by (simp add: xorlist_begin_def Let_def)

lemma after_not_yet_implemented: "after proj (not_yet_implemented s) = Some (proj s)"
  by (simp add: not_yet_implemented_def)

lemma xorlist_clear_empty: "m_size s = 0 \<Longrightarrow> xorlist_clear s = Inr ((), s)"
  by (simp add: xorlist_clear_def xorlist_empty_def)

lemma store_link_node_at:
  assumes "store_link p v s = Some s1"
  shows "\<exists>n. node_at s1 p = Some n \<and> m_link n = v" and "end_self s1 = end_self s"
proof -
  show "\<exists>n. node_at s1 p = Some n \<and> m_link n = v"
  proof (cases "p = end_self s")
    case True
    with assms have "s1 = s\<lparr>m_end := (m_end s)\<lparr>m_link := v\<rparr>\<rparr>"
      by (simp add: store_link_def)
    with True show ?thesis by (simp add: node_at_def)
  next
    case False
    with assms obtain n where "fmlookup (nodes s) p = Some n"
      and "s1 = s\<lparr>nodes := fmupd p (n\<lparr>m_link := v\<rparr>) (nodes s)\<rparr>"
      by (cases "fmlookup (nodes s) p") (simp_all add: store_link_def)
    with False show ?thesis by (simp add: node_at_def)
  qed
  show "end_self s1 = end_self s"
  proof (cases "p = end_self s")
    case True
    with assms have "s1 = s\<lparr>m_end := (m_end s)\<lparr>m_link := v\<rparr>\<rparr>"
      by (simp add: store_link_def)
    then show ?thesis by simp
  next
    case False
    with assms obtain n where
      "s1 = s\<lparr>nodes := fmupd p (n\<lparr>m_link := v\<rparr>) (nodes s)\<rparr>"
      by (cases "fmlookup (nodes s) p") (auto simp: store_link_def)
    then show ?thesis by simp
  qed
qed

lemma store_link_other:
  assumes "store_link p v s = Some s1" and "q \<noteq> p"
  shows "node_at s1 q = node_at s q"
proof (cases "p = end_self s")
  case True
  with assms have "s1 = s\<lparr>m_end := (m_end s)\<lparr>m_link := v\<rparr>\<rparr>"
    by (simp add: store_link_def)
  with True assms(2) show ?thesis by (simp add: node_at_def)
next
  case False
  with assms obtain n where
    "s1 = s\<lparr>nodes := fmupd p (n\<lparr>m_link := v\<rparr>) (nodes s)\<rparr>"
    by (cases "fmlookup (nodes s) p") (auto simp: store_link_def)
  with assms(2) show ?thesis by (simp add: node_at_def)
qed

lemma unlink_nodes_self_link:
  assumes "unlink_nodes f l s = Some s1"
  shows "\<exists>n. node_at s1 f = Some n \<and> m_link n = f"
proof -
  from assms obtain s0 where 0: "store_link f f s = Some s0" and 1: "store_link l l s0 = Some s1"
    by (cases "store_link f f s") (simp_all add: unlink_nodes_def)
  show ?thesis
  proof (cases "f = l")
    case True
    with 1 show ?thesis using store_link_node_at(1) by blast
  next
    case False
    with 1 have "node_at s1 f = node_at s0 f" by (rule store_link_other)
    with 0 show ?thesis using store_link_node_at(1) by fastforce
  qed
qed

lemma deallocate_node_at:
  assumes "deallocate np s = Some s1"
  shows "node_at s1 np = (if np = end_self s then Some (m_end s) else None)"
proof -
  from assms have "s1 = s\<lparr>nodes := fmdrop np (nodes s)\<rparr>"
    by (simp add: deallocate_def split: if_splits)
  then show ?thesis by (simp add: node_at_def)
qed


lemma clear_loop_self_linked:
  "f \<noteq> l \<Longrightarrow> (\<forall>n. node_at s f = Some n \<longrightarrow> m_link n = f) \<Longrightarrow>
   clear_loop f l s = Inl Undefined"
proof (induction f l s rule: clear_loop.induct)
  case (1 f l s)
  show ?case
  proof (cases "node_at s f")
    case None
    with 1(2) show ?thesis by (subst clear_loop.simps) simp
  next
    case (Some n)
    with 1(3) have n: "m_link n = f" by simp
    show ?thesis
    proof (cases "deallocate f s")
      case None
      with Some 1(2) show ?thesis by (subst clear_loop.simps) simp
    next
      case s1: (Some s1)
      have inv: "\<forall>k. node_at s1 f = Some k \<longrightarrow> m_link k = f"
      proof (cases "f = end_self s")
        case True
        with Some have "m_end s = n" by (simp add: node_at_def)
        with True n deallocate_node_at [OF s1] show ?thesis by simp
      next
        case False
        with deallocate_node_at [OF s1] show ?thesis by simp
      qed
      have "clear_loop (m_link n) l s1 = Inl Undefined"
        using 1(1) [OF 1(2) refl Some refl s1] 1(2) inv n by simp
      with Some s1 1(2) show ?thesis by (subst clear_loop.simps) simp
    qed
  qed
qed

lemma xorlist_clear_nonempty:
  assumes "m_size s \<noteq> 0"
  shows "xorlist_clear s = Inl Undefined"
proof (cases "unlink_nodes (m_link (m_end s)) (m_link (m_end s)) s")
  case None
  with assms show ?thesis by (simp add: xorlist_clear_def xorlist_empty_def)
next
  case (Some s1)
  obtain n where n: "node_at s1 (m_link (m_end s)) = Some n" "m_link n = m_link (m_end s)"
    using unlink_nodes_self_link [OF Some] by blast
  have "node_at (s1\<lparr>m_size := 0\<rparr>) (m_link (m_end s)) = node_at s1 (m_link (m_end s))"
    by (simp add: node_at_def)
  with n have inv: "\<forall>k. node_at (s1\<lparr>m_size := 0\<rparr>) (m_link (m_end s)) = Some k
      \<longrightarrow> m_link k = m_link (m_end s)"
    by simp
  have "m_link (m_end s) \<noteq> m_link (m_end s) - 1" by simp
  then have "clear_loop (m_link (m_end s)) (m_link (m_end s) - 1) (s1\<lparr>m_size := 0\<rparr>)
      = Inl Undefined"
    using inv by (rule clear_loop_self_linked)
  with assms Some show ?thesis by (simp add: xorlist_clear_def xorlist_empty_def Let_def)
qed

lemma xorlist_reverse_short: "m_size s \<le> 1 \<Longrightarrow> xorlist_reverse rest s = Inr ((), s)"
  by (simp add: xorlist_reverse_def noexcept_if_def not_less [symmetric])

lemma xorlist_reverse_long: "1 < m_size s \<Longrightarrow> xorlist_reverse rest s = Inl Undefined"
  by (simp add: xorlist_reverse_def noexcept_if_def xorlist_begin_undefined Let_def)

lemma xorlist_unique_pred_undefined: "xorlist_unique_pred p dself d s = Inl Undefined"
  by (simp add: xorlist_unique_pred_def xorlist_begin_undefined Let_def)

lemma xorlist_swap_cases:
  "xorlist_swap this other =
     (if is_always_equal (alloc this) then Inl Terminated
      else Inl (Thrown (logic_error ''Not yet implemented'') (this, other)))"
  by (simp add: xorlist_swap_def noexcept_if_def not_yet_implemented_def)

lemma perform_unchanged:
  assumes "m_size s = 0" and "perform c s = Some s1"
  shows "s1 = s"
proof (cases c)
  case Clear
  with assms show ?thesis by (simp add: xorlist_clear_empty)
next
  case (Swap other)
  with assms show ?thesis by (simp add: xorlist_swap_cases split: if_splits)
next
  case (Reverse rest)
  with assms show ?thesis by (simp add: xorlist_reverse_short)
next
  case (Unique dself d)
  with assms show ?thesis by (simp add: xorlist_unique_def xorlist_unique_pred_undefined)
next
  case (Unique_pred p dself d)
  with assms show ?thesis by (simp add: xorlist_unique_pred_undefined)
qed (use assms in \<open>simp_all add: after_not_yet_implemented
      xorlist_insert_def xorlist_insert_rvalue_def xorlist_insert_count_def
      xorlist_insert_range_def xorlist_insert_ilist_def xorlist_emplace_def
      xorlist_erase_def xorlist_erase_range_def xorlist_push_back_def
      xorlist_push_back_rvalue_def xorlist_emplace_back_def xorlist_pop_back_def
      xorlist_push_front_def xorlist_push_front_rvalue_def xorlist_emplace_front_def
      xorlist_pop_front_def xorlist_resize_def xorlist_resize_value_def
      xorlist_merge_def xorlist_merge_rvalue_def xorlist_merge_comp_def
      xorlist_merge_rvalue_comp_def xorlist_splice_def xorlist_splice_rvalue_def
      xorlist_splice_one_def xorlist_splice_one_rvalue_def xorlist_splice_range_def
      xorlist_splice_range_rvalue_def xorlist_sort_def xorlist_sort_comp_def\<close>)

lemma ctor_fill_loop_returns:
  "ctor_fill_loop count v s = Inr r \<Longrightarrow> count = 0 \<and> r = ((), s)"
  by (subst (asm) ctor_fill_loop.simps)
     (auto simp: xorlist_push_back_def not_yet_implemented_def word_gt_0
        split: if_splits)

lemma ctor_count_loop_returns:
  "ctor_count_loop count s = Inr r \<Longrightarrow> count = 0 \<and> r = ((), s)"
  by (subst (asm) ctor_count_loop.simps)
     (auto simp: xorlist_emplace_back_def not_yet_implemented_def word_gt_0
        split: if_splits)

lemma ctor_range_loop_returns:
  "ctor_range_loop xs s = Inr r \<Longrightarrow> xs = [] \<and> r = ((), s)"
  by (cases xs) (auto simp: xorlist_emplace_back_def not_yet_implemented_def)

lemma ctor_init_loop_returns:
  "ctor_init_loop xs s = Inr r \<Longrightarrow> xs = [] \<and> r = ((), s)"
  by (cases xs) (auto simp: xorlist_push_back_def not_yet_implemented_def)

lemma ctor_init_loop_throws:
  "ctor_init_loop (x # xs) s = Inl (Thrown (logic_error ''Not yet implemented'') s)"
  by (simp add: xorlist_push_back_def not_yet_implemented_def)

lemma reachable_is_default:
  "reachable s \<Longrightarrow> \<exists>a self d. self \<noteq> nullptr \<and> s = xorlist_default a self d"
proof (induction rule: reachable.induct)
  case (constructed self a d)
  then show ?case by blast
next
  case (constructed_fill self a d count v s)
  from constructed_fill(2) have "s = xorlist_default a self d"
    unfolding xorlist_fill_def by (auto dest: ctor_fill_loop_returns)
  with constructed_fill(1) show ?case by blast
next
  case (constructed_count self a d count s)
  from constructed_count(2) have "s = xorlist_default a self d"
    unfolding xorlist_count_def by (auto dest: ctor_count_loop_returns)
  with constructed_count(1) show ?case by blast
next
  case (constructed_range self a d vals s)
  from constructed_range(2) have "s = xorlist_default a self d"
    unfolding xorlist_range_def by (auto dest: ctor_range_loop_returns)
  with constructed_range(1) show ?case by blast
next
  case (constructed_init self a d init s)
  from constructed_init(2) have "s = xorlist_default a self d"
    unfolding xorlist_init_def by (auto dest: ctor_init_loop_returns)
  with constructed_init(1) show ?case by blast
next
  case (called s c s1)
  then obtain a self d where s: "self \<noteq> nullptr" "s = xorlist_default a self d"
    by blast
  then have "m_size s = 0" by (simp add: xorlist_default_def)
  then have "s1 = s" using called.hyps(2) by (rule perform_unchanged)
  with s show ?case by blast
qed

lemma reachable_empty: "reachable s \<Longrightarrow> m_size s = 0"
  by (auto dest: reachable_is_default simp: xorlist_default_def)

section \<open>The list: results\<close>

text \<open>
  Claim C2, as stated, at the list the default constructor builds at address 0x1000
  (a reachable, empty list). The specification asks for the sentinel link
  \<open>address(sentinel) XOR address(sentinel)\<close>, which is 0; the node constructor stored
  the sentinel's own address, 0x1000.
\<close>

theorem default_list_sentinel_link_is_not_the_xor:
  "reachable (xorlist_default std_allocator 0x1000 (0::nat))
   \<and> xorlist_empty (xorlist_default std_allocator 0x1000 (0::nat))
   \<and> m_link (m_end (xorlist_default std_allocator 0x1000 (0::nat))) = 0x1000
   \<and> end_self (xorlist_default std_allocator 0x1000 (0::nat)) XOR end_self (xorlist_default std_allocator 0x1000 (0::nat)) = 0
   \<and> \<not> spec_empty_sentinel_link (xorlist_default std_allocator 0x1000 (0::nat))"
  by (simp add: reachable.constructed nullptr_def xorlist_empty_def
      spec_empty_sentinel_link_def)
     (simp add: xorlist_default_def node_ctor_def)

text \<open>
  Claim C2, amended. In every reachable list state the list is empty, it owns no
  element node, and the link field of the sentinel holds the sentinel's own address,
  which is not null (so the field is never the XOR of that address with itself). Every
  call of \<open>clear\<close>, \<open>reverse\<close>, \<open>unique\<close>, \<open>sort\<close>, \<open>merge\<close>, \<open>splice\<close>, \<open>swap\<close>,
  \<open>resize\<close> and of the \<open>insert\<close>, \<open>emplace\<close>, \<open>erase\<close>, \<open>push\<close> and \<open>pop\<close> functions
  after which the program goes on leaves such a state exactly as it was.
\<close>

theorem reachable_sentinel_links_to_itself:
  assumes "reachable s"
  shows "m_size s = 0
   \<and> nodes s = fmempty
   \<and> m_link (m_end s) = end_self s
   \<and> end_self s \<noteq> nullptr
   \<and> \<not> spec_empty_sentinel_link s
   \<and> (\<forall>c s1. perform c s = Some s1 \<longrightarrow> s1 = s)"
proof -
  from assms obtain a self d where self: "self \<noteq> nullptr" and s: "s = xorlist_default a self d"
    by (blast dest: reachable_is_default)
  have size: "m_size s = 0" and "nodes s = fmempty"
    and link: "m_link (m_end s) = end_self s" and addr: "end_self s = self"
    by (simp_all add: s xorlist_default_def node_ctor_def)
  moreover have "end_self s \<noteq> nullptr"
    using self addr by simp
  moreover have "\<not> spec_empty_sentinel_link s"
    using self link addr by (simp add: spec_empty_sentinel_link_def nullptr_def)
  moreover have "\<forall>c s1. perform c s = Some s1 \<longrightarrow> s1 = s"
    using size by (blast intro: perform_unchanged)
  ultimately show ?thesis by blast
qed

theorem reachable_sentinel_links_to_itself_witness:
  "reachable (xorlist_default std_allocator 0x1000 (0::nat))
   \<and> m_size (xorlist_default std_allocator 0x1000 (0::nat)) = 0
   \<and> m_link (m_end (xorlist_default std_allocator 0x1000 (0::nat))) = end_self (xorlist_default std_allocator 0x1000 (0::nat))
   \<and> perform (Clear :: (nat, nat) call) (xorlist_default std_allocator 0x1000 (0::nat)) = Some (xorlist_default std_allocator 0x1000 (0::nat))"
proof -
  have r: "reachable (xorlist_default std_allocator 0x1000 (0::nat))"
    by (rule reachable.constructed) (simp add: nullptr_def)
  from reachable_sentinel_links_to_itself [OF r]
  have size: "m_size (xorlist_default std_allocator 0x1000 (0::nat)) = 0"
    and link: "m_link (m_end (xorlist_default std_allocator 0x1000 (0::nat))) = end_self (xorlist_default std_allocator 0x1000 (0::nat))"
    by blast+
  from size have "perform (Clear :: (nat, nat) call) (xorlist_default std_allocator 0x1000 (0::nat)) = Some (xorlist_default std_allocator 0x1000 (0::nat))"
    by (simp add: xorlist_clear_empty)
  with r size link show ?thesis by blast
qed

text \<open>
  Claim C3, as stated, at \<open>swap\<close> on two default-constructed lists with the default
  allocator \<open>std::allocator\<close>. The exception specification of \<open>swap\<close> is
  \<open>noexcept(is_always_equal)\<close>, which is \<open>noexcept(true)\<close> here: the exception does not
  leave the function, the program ends in \<open>std::terminate\<close>.
\<close>

theorem swap_with_std_allocator_terminates:
  "xorlist_swap (xorlist_default std_allocator 0x1000 (0::nat)) (xorlist_default std_allocator 0x2000 (0::nat)) = Inl Terminated
   \<and> xorlist_swap (xorlist_default std_allocator 0x1000 (0::nat)) (xorlist_default std_allocator 0x2000 (0::nat))
       \<noteq> Inl (Thrown (logic_error ''Not yet implemented'') ((xorlist_default std_allocator 0x1000 (0::nat)), (xorlist_default std_allocator 0x2000 (0::nat))))"
  by (simp add: xorlist_swap_cases xorlist_default_def std_allocator_def)

text \<open>
  Claim C3, amended. Insert at a position, emplace, erase, push_back, push_front,
  emplace_back, emplace_front, pop_back, pop_front, resize, splice and sort, in each of
  their overloads, throw \<open>std::logic_error("Not yet implemented")\<close> for every input
  and leave the list (both lists, for splice) unchanged. \<open>swap\<close> executes the same
  statement and changes neither list; its exception reaches the caller when the
  allocator is not always equal, and with an always-equal allocator the call ends the
  program.
\<close>

theorem structural_mutators_are_not_implemented:
  "xorlist_insert pos v s =
       Inl (Thrown (logic_error ''Not yet implemented'') s)
   \<and> xorlist_insert_rvalue pos v s =
       Inl (Thrown (logic_error ''Not yet implemented'') s)
   \<and> xorlist_insert_count pos count v s =
       Inl (Thrown (logic_error ''Not yet implemented'') s)
   \<and> xorlist_insert_range pos vals s =
       Inl (Thrown (logic_error ''Not yet implemented'') s)
   \<and> xorlist_insert_ilist pos ilist s =
       Inl (Thrown (logic_error ''Not yet implemented'') s)
   \<and> xorlist_emplace pos args s =
       Inl (Thrown (logic_error ''Not yet implemented'') s)
   \<and> xorlist_erase pos s =
       Inl (Thrown (logic_error ''Not yet implemented'') s)
   \<and> xorlist_erase_range first_it last_it s =
       Inl (Thrown (logic_error ''Not yet implemented'') s)
   \<and> xorlist_push_back v s =
       Inl (Thrown (logic_error ''Not yet implemented'') s)
   \<and> xorlist_push_back_rvalue v s =
       Inl (Thrown (logic_error ''Not yet implemented'') s)
   \<and> xorlist_emplace_back args s =
       Inl (Thrown (logic_error ''Not yet implemented'') s)
   \<and> xorlist_pop_back s =
       Inl (Thrown (logic_error ''Not yet implemented'') s)
   \<and> xorlist_push_front v s =
       Inl (Thrown (logic_error ''Not yet implemented'') s)
   \<and> xorlist_push_front_rvalue v s =
       Inl (Thrown (logic_error ''Not yet implemented'') s)
   \<and> xorlist_emplace_front args s =
       Inl (Thrown (logic_error ''Not yet implemented'') s)
   \<and> xorlist_pop_front s =
       Inl (Thrown (logic_error ''Not yet implemented'') s)
   \<and> xorlist_resize count s =
       Inl (Thrown (logic_error ''Not yet implemented'') s)
   \<and> xorlist_resize_value count v s =
       Inl (Thrown (logic_error ''Not yet implemented'') s)
   \<and> xorlist_splice pos s other =
       Inl (Thrown (logic_error ''Not yet implemented'') (s, other))
   \<and> xorlist_splice_rvalue pos s other =
       Inl (Thrown (logic_error ''Not yet implemented'') (s, other))
   \<and> xorlist_splice_one pos it s other =
       Inl (Thrown (logic_error ''Not yet implemented'') (s, other))
   \<and> xorlist_splice_one_rvalue pos it s other =
       Inl (Thrown (logic_error ''Not yet implemented'') (s, other))
   \<and> xorlist_splice_range pos first_it last_it s other =
       Inl (Thrown (logic_error ''Not yet implemented'') (s, other))
   \<and> xorlist_splice_range_rvalue pos first_it last_it s other =
       Inl (Thrown (logic_error ''Not yet implemented'') (s, other))
   \<and> xorlist_sort_comp cmp s =
       Inl (Thrown (logic_error ''Not yet implemented'') s)
   \<and> xorlist_sort sorted_list =
       Inl (Thrown (logic_error ''Not yet implemented'') sorted_list)
   \<and> xorlist_swap s other =
       (if is_always_equal (alloc s) then Inl Terminated
        else Inl (Thrown (logic_error ''Not yet implemented'') (s, other)))"
  by (simp add: not_yet_implemented_def xorlist_swap_cases
      xorlist_emplace_back_def xorlist_emplace_def xorlist_emplace_front_def
      xorlist_erase_def xorlist_erase_range_def xorlist_insert_count_def
      xorlist_insert_def xorlist_insert_ilist_def xorlist_insert_range_def
      xorlist_insert_rvalue_def xorlist_pop_back_def xorlist_pop_front_def
      xorlist_push_back_def xorlist_push_back_rvalue_def xorlist_push_front_def
      xorlist_push_front_rvalue_def xorlist_resize_def xorlist_resize_value_def
      xorlist_sort_comp_def xorlist_sort_def xorlist_splice_def xorlist_splice_one_def
      xorlist_splice_one_rvalue_def xorlist_splice_range_def
      xorlist_splice_range_rvalue_def xorlist_splice_rvalue_def)

text \<open>
  Claim C4, on the code. \<open>empty()\<close> is the comparison of the stored count with 0 and
  is true of a default-constructed list. \<open>clear()\<close> returns at once on an empty list and
  has undefined behaviour on any other (it frees the first node and reads its link
  again), so the lists it leaves are the ones that were empty already. \<open>begin()\<close>,
  however, has no \<open>return\<close> statement: for every list the call has undefined
  behaviour and yields no iterator that could be compared with \<open>end()\<close>.
\<close>

theorem begin_yields_no_iterator:
  "xorlist_begin s = Inl Undefined
   \<and> xorlist_empty s = (m_size s = 0)
   \<and> xorlist_empty (xorlist_default a self d)
   \<and> xorlist_clear s = (if m_size s = 0 then Inr ((), s) else Inl Undefined)
   \<and> xorlist_end (xorlist_default a self d) = \<lparr>ptr = self\<rparr>"
proof -
  have "xorlist_empty (xorlist_default a self d)"
    by (simp add: xorlist_empty_def xorlist_default_def)
  moreover have "xorlist_clear s = (if m_size s = 0 then Inr ((), s) else Inl Undefined)"
    by (simp add: xorlist_clear_empty xorlist_clear_nonempty)
  moreover have "xorlist_end (xorlist_default a self d) = \<lparr>ptr = self\<rparr>"
    by (simp add: xorlist_end_def xorlist_default_def)
  ultimately show ?thesis
    by (simp add: xorlist_begin_undefined xorlist_empty_def)
qed

text \<open>
  Claim C5, on the code. The list \<open>{1, 3, 5, 7}\<close> of the test \<open>size()\<close> is never built:
  the constructor throws at the first \<open>push_back\<close>. On a default-constructed list
  \<open>insert\<close> and \<open>erase\<close> throw and the count stays 0; no element is added and the count
  is not incremented.
\<close>

theorem count_is_never_incremented:
  "xorlist_init std_allocator self d [1, 3, 5, 7 :: int] =
       Inl (Thrown (logic_error ''Not yet implemented'') (xorlist_default std_allocator self d))
   \<and> xorlist_size (xorlist_default a self d) = 0
   \<and> xorlist_insert pos v (xorlist_default a self d) =
       Inl (Thrown (logic_error ''Not yet implemented'') (xorlist_default a self d))
   \<and> xorlist_erase pos (xorlist_default a self d) =
       Inl (Thrown (logic_error ''Not yet implemented'') (xorlist_default a self d))"
  by (simp add: xorlist_init_def xorlist_push_back_def xorlist_insert_def xorlist_erase_def
      not_yet_implemented_def xorlist_size_def)
     (simp add: xorlist_default_def)

text \<open>
  Claim C6, on the code. With no allocation failing (no allocation is attempted),
  \<open>push_back\<close>, \<open>push_front\<close>, \<open>insert\<close>, \<open>emplace\<close>, \<open>emplace_back\<close> and
  \<open>emplace_front\<close> insert nothing: each throws \<open>std::logic_error\<close> and leaves the list
  as it was.
\<close>

theorem single_element_insertion_inserts_nothing:
  "xorlist_push_back v s = Inl (Thrown (logic_error ''Not yet implemented'') s)
   \<and> xorlist_push_back_rvalue v s = Inl (Thrown (logic_error ''Not yet implemented'') s)
   \<and> xorlist_push_front v s = Inl (Thrown (logic_error ''Not yet implemented'') s)
   \<and> xorlist_push_front_rvalue v s = Inl (Thrown (logic_error ''Not yet implemented'') s)
   \<and> xorlist_insert pos v s = Inl (Thrown (logic_error ''Not yet implemented'') s)
   \<and> xorlist_insert_rvalue pos v s = Inl (Thrown (logic_error ''Not yet implemented'') s)
   \<and> xorlist_emplace pos args s = Inl (Thrown (logic_error ''Not yet implemented'') s)
   \<and> xorlist_emplace_back args s = Inl (Thrown (logic_error ''Not yet implemented'') s)
   \<and> xorlist_emplace_front args s = Inl (Thrown (logic_error ''Not yet implemented'') s)"
  by (simp add: not_yet_implemented_def xorlist_push_back_def xorlist_push_back_rvalue_def
      xorlist_push_front_def xorlist_push_front_rvalue_def xorlist_insert_def
      xorlist_insert_rvalue_def xorlist_emplace_def xorlist_emplace_back_def
      xorlist_emplace_front_def)

text \<open>
  Claim C7, on the code. \<open>splice(pos, other)\<close> throws \<open>std::logic_error\<close> for every
  position and every pair of lists, two empty lists included, and both lists stay as
  they were: nothing is transferred.
\<close>

theorem splice_transfers_nothing:
  "xorlist_splice pos this other =
       Inl (Thrown (logic_error ''Not yet implemented'') (this, other))
   \<and> xorlist_splice_rvalue pos this other =
       Inl (Thrown (logic_error ''Not yet implemented'') (this, other))
   \<and> xorlist_splice (to_const (xorlist_end (xorlist_default std_allocator 0x1000 (0::nat)))) (xorlist_default std_allocator 0x1000 (0::nat)) (xorlist_default std_allocator 0x2000 (0::nat)) =
       Inl (Thrown (logic_error ''Not yet implemented'') ((xorlist_default std_allocator 0x1000 (0::nat)), (xorlist_default std_allocator 0x2000 (0::nat))))"
  by (simp add: xorlist_splice_def xorlist_splice_rvalue_def not_yet_implemented_def)

text \<open>
  Claim C9, on the code. The list \<open>{8, 7, 5, 9, 0, 1, 3, 2, 6, 4}\<close> of the test
  \<open>reverse()\<close> is never built: its constructor throws at the first \<open>push_back\<close>. On
  every list of two or more elements \<open>reverse()\<close> of \<open>xorlist.cpp\<close> does not return,
  whatever the statements of its loop do: it starts with \<open>begin()\<close>, whose behaviour is
  undefined. \<open>reverse()\<close> of \<open>xorlist.ixx\<close> ends the program on every list. So no list
  is reversed once, and none twice.
\<close>

theorem reverse_reverses_nothing:
  "xorlist_init std_allocator self d [8, 7, 5, 9, 0, 1, 3, 2, 6, 4 :: int] =
       Inl (Thrown (logic_error ''Not yet implemented'') (xorlist_default std_allocator self d))
   \<and> (1 < m_size s \<longrightarrow> xorlist_reverse rest s = Inl Undefined)
   \<and> xorlist_reverse_ixx t = Inl Terminated"
proof -
  have "xorlist_init std_allocator self d [8, 7, 5, 9, 0, 1, 3, 2, 6, 4 :: int] =
      Inl (Thrown (logic_error ''Not yet implemented'') (xorlist_default std_allocator self d))"
    by (simp add: xorlist_init_def ctor_init_loop_throws del: ctor_init_loop.simps)
  moreover have "1 < m_size s \<longrightarrow> xorlist_reverse rest s = Inl Undefined"
    by (simp add: xorlist_reverse_long)
  moreover have "xorlist_reverse_ixx t = Inl Terminated"
    by (simp add: xorlist_reverse_ixx_def noexcept_if_def not_yet_implemented_def)
  ultimately show ?thesis by blast
qed

theorem reverse_reverses_nothing_witness:
  "1 < m_size ((xorlist_default std_allocator 0x1000 (0::int))\<lparr>m_size := 10\<rparr>)
   \<and> xorlist_reverse (\<lambda>i e s. Inr ((), s))
         ((xorlist_default std_allocator 0x1000 (0::int))\<lparr>m_size := 10\<rparr>) = Inl Undefined
   \<and> xorlist_reverse_ixx
         ((xorlist_default std_allocator 0x1000 (0::int))\<lparr>m_size := 10\<rparr>) = Inl Terminated"
proof -
  have size: "1 < m_size ((xorlist_default std_allocator 0x1000 (0::int))\<lparr>m_size := 10\<rparr>)"
    by simp
  from reverse_reverses_nothing
         [where s = "(xorlist_default std_allocator 0x1000 (0::int))\<lparr>m_size := 10\<rparr>"
            and rest = "\<lambda>i e s. Inr ((), s)"
            and t = "(xorlist_default std_allocator 0x1000 (0::int))\<lparr>m_size := 10\<rparr>"]
    size
  show ?thesis by blast
qed

lemma unique_test_state_values:
  "iterator_deref unique_test_state \<lparr>ptr = 0x2000\<rparr> = Some 1"
  "iterator_deref unique_test_state \<lparr>ptr = 0x2001\<rparr> = Some 2"
  "iterator_deref unique_test_state \<lparr>ptr = 0x2002\<rparr> = Some 2"
  "iterator_deref unique_test_state \<lparr>ptr = 0x2003\<rparr> = Some 3"
  by (simp_all add: iterator_deref_def unique_test_state_def fmlookup_of_list)

lemma unique_test_state_end: "xorlist_end unique_test_state = \<lparr>ptr = 0x2009\<rparr>"
  by (simp add: xorlist_end_def unique_test_state_def xorlist_default_def)

lemma unique_loop_on_test_state:
  "unique_loop (=) deleted \<lparr>ptr = 0x2000\<rparr> (xorlist_end unique_test_state) unique_test_state
   = Inl (Thrown (logic_error ''Not yet implemented'') unique_test_state)"
  apply (simp add: unique_test_state_end)
  apply (subst unique_loop.simps)
  apply (simp add: iterator_eq_def std_next_def iterator_pre_inc_def Let_def)
  apply (subst unique_inner.simps)
  apply (simp add: iterator_eq_def iterator_pre_inc_def Let_def unique_test_state_values)
  apply (subst unique_loop.simps)
  apply (simp add: iterator_eq_def std_next_def iterator_pre_inc_def Let_def)
  apply (subst unique_inner.simps)
  apply (simp add: iterator_eq_def iterator_pre_inc_def Let_def unique_test_state_values)
  apply (subst unique_inner.simps)
  apply (simp add: iterator_eq_def iterator_pre_inc_def Let_def unique_test_state_values)
  apply (simp add: xorlist_splice_range_def not_yet_implemented_def)
  done

text \<open>
  Claim C8, on the code. The list \<open>{1, 2, 2, 3, 3, 2, 1, 1, 2}\<close> is never built: its
  constructor throws at the first \<open>push_back\<close>. \<open>unique()\<close> starts with \<open>begin()\<close>, so
  on every list its behaviour is undefined. And its loop, started by hand at the first
  element of that list laid out in memory, removes nothing: at the first run of equal
  elements it calls the range \<open>splice\<close>, which throws, and the list is as it was. It
  does not return 3.
\<close>

theorem unique_removes_nothing:
  "xorlist_init std_allocator self d [1, 2, 2, 3, 3, 2, 1, 1, 2 :: int] =
       Inl (Thrown (logic_error ''Not yet implemented'') (xorlist_default std_allocator self d))
   \<and> xorlist_unique dself d s = Inl Undefined
   \<and> unique_loop (=) (xorlist_default std_allocator 0x3000 0) \<lparr>ptr = 0x2000\<rparr>
         (xorlist_end unique_test_state) unique_test_state =
       Inl (Thrown (logic_error ''Not yet implemented'') unique_test_state)"
proof -
  have "xorlist_init std_allocator self d [1, 2, 2, 3, 3, 2, 1, 1, 2 :: int] =
      Inl (Thrown (logic_error ''Not yet implemented'') (xorlist_default std_allocator self d))"
    by (simp add: xorlist_init_def ctor_init_loop_throws del: ctor_init_loop.simps)
  moreover have "xorlist_unique dself d s = Inl Undefined"
    by (simp add: xorlist_unique_def xorlist_unique_pred_undefined)
  ultimately show ?thesis
    using unique_loop_on_test_state by blast
qed

end
